theory Spec2Isabelle
  imports Complex_Main
begin

section \<open>The Avocado Sales API (\<^verbatim>\<open>src/server.js\<close>)\<close>

text \<open>
  The program is one Express application over one Mongoose model. Its three data
  routes are embedded as functions from the request and the collection to a response
  (and, for the create route, the new collection). What the handlers call but the
  program does not define is a parameter of the embedding: the conversion
  \<^verbatim>\<open>Number(...)\<close> of the JavaScript engine, and what the Mongoose model makes of a
  document and of a filter value. The collection is the list of its documents in
  insertion order, and a store call can be rejected by the engine at any time.
\<close>

subsection \<open>JavaScript values\<close>

text \<open>
  A JavaScript number other than \<^verbatim>\<open>NaN\<close>, by its value: \<^verbatim>\<open>-0\<close> is \<^verbatim>\<open>0\<close> (both are
  falsy and equal under \<^verbatim>\<open>===\<close>). The numbers of the program are the doubles among
  these values.
\<close>

datatype number = Fin rat | PosInf | NegInf

datatype jsnum = Num number | NaN

text \<open>What \<^verbatim>\<open>express.json()\<close> leaves in \<^verbatim>\<open>req.body\<close>: a parsed JSON text.\<close>

datatype json =
    JNull
  | JBool bool
  | JNum number
  | JStr string
  | JArr "json list"
  | JObj "(string \<times> json) list"

text \<open>
  Reading a property, as the destructuring of line 105 does. \<open>None\<close> is
  \<^verbatim>\<open>undefined\<close>. Of a repeated key, JSON.parse keeps the last occurrence. An array
  body has none of the eight names.
\<close>

fun getProp :: "json \<Rightarrow> string \<Rightarrow> json option" where
  "getProp (JObj kvs) k = map_of (rev kvs) k"
| "getProp _ k = None"

text \<open>ToBoolean on a value that may be \<^verbatim>\<open>undefined\<close>.\<close>

fun truthy :: "json option \<Rightarrow> bool" where
  "truthy None = False"
| "truthy (Some JNull) = False"
| "truthy (Some (JBool b)) = b"
| "truthy (Some (JNum n)) = (n \<noteq> Fin 0)"
| "truthy (Some (JStr s)) = (s \<noteq> [])"
| "truthy (Some (JArr xs)) = True"
| "truthy (Some (JObj kvs)) = True"

text \<open>
  What the query parser leaves in \<^verbatim>\<open>req.query\<close> under one name: a string, an array
  (the name was repeated, or written with \<^verbatim>\<open>[]\<close>) or an object (the name was
  written with a bracketed key, as in \<^verbatim>\<open>region[$ne]=USA\<close>).
\<close>

datatype qvalue =
    QStr string
  | QArr "qvalue list"
  | QObj "(string \<times> qvalue) list"

text \<open>ToBoolean on a query parameter that may be absent: arrays and objects are truthy.\<close>

fun truthyQ :: "qvalue option \<Rightarrow> bool" where
  "truthyQ None = False"
| "truthyQ (Some (QStr s)) = (s \<noteq> [])"
| "truthyQ (Some (QArr vs)) = True"
| "truthyQ (Some (QObj kvs)) = True"

text \<open>ToBoolean on an environment variable: a string, or \<^verbatim>\<open>undefined\<close>.\<close>

fun truthyStr :: "string option \<Rightarrow> bool" where
  "truthyStr None = False"
| "truthyStr (Some s) = (s \<noteq> [])"

subsection \<open>The schema and the collection\<close>

text \<open>
  \<^verbatim>\<open>AvocadoSchema\<close> (lines 21 to 30): one Number path \<^verbatim>\<open>id\<close> with a unique index, two
  String paths and five more Number paths, all required. A stored Number is never
  \<^verbatim>\<open>NaN\<close>, so the fields have type \<^typ>\<open>number\<close>. The field \<^verbatim>\<open>id\<close> is named
  \<open>id_field\<close> here, \<open>id\<close> being the identity function of HOL. The identifiers the store
  adds on its own (\<^verbatim>\<open>_id\<close>, \<^verbatim>\<open>__v\<close>) are left out: no handler reads them.
\<close>

record avocado =
  id_field :: number
  date :: string
  region :: string
  averagePrice :: number
  totalVolume :: number
  smallBags :: number
  largeBags :: number
  xLargeBags :: number

text \<open>
  What a rejected store call throws: the handlers read \<^verbatim>\<open>err.code\<close> (line 127) and
  \<^verbatim>\<open>err.message\<close> (lines 83, 99, 130). \<open>None\<close> is an error without a numeric code.
\<close>

datatype store_error = StoreError (code: "int option") (message: string)

text \<open>The server's answer to a unique index violation.\<close>

definition duplicateKey :: store_error where
  "duplicateKey = StoreError (Some 11000) ''E11000 duplicate key error''"

text \<open>
  The store is reached through five calls of the Mongoose model. What the library does
  with the values handed to it is not written in \<^verbatim>\<open>server.js\<close>; the embedding takes it
  as parameters and the properties hold for every choice of them:
  \<^item> \<open>odm\<close>: what the model constructor and the validation of \<^verbatim>\<open>save\<close> and
    \<^verbatim>\<open>insertMany\<close> make of a plain object, either the document cast to the schema or
    the validation error;
  \<^item> \<open>filter_cast\<close>: what a String path makes of a filter value that is not a string,
    given the name of the path: either a cast error, or the condition the value puts
    on the field (an operator object, an array of alternatives);
  \<^item> \<open>castNaN\<close>: what the Number path \<^verbatim>\<open>id\<close> does with the filter value \<^verbatim>\<open>NaN\<close>: it
    throws a cast error (\<open>Some\<close> of it), or lets the value through (\<open>None\<close>), and then
    \<^verbatim>\<open>NaN\<close> equals no stored \<^verbatim>\<open>id\<close>.

  The engine's behaviour at one call is the parameter \<open>fault\<close>: \<open>Some\<close> of an error
  when the engine rejects the call for a reason of its own (a lost connection, say).
  A rejected call leaves the collection as it was.
\<close>

type_synonym odm = "json \<Rightarrow> store_error + avocado"

type_synonym filter_cast = "string \<Rightarrow> qvalue \<Rightarrow> store_error + (string \<Rightarrow> bool)"

text \<open>The filter object of lines 71 to 73: each of the two keys is set or not.\<close>

record query =
  date_q :: "qvalue option"
  region_q :: "qvalue option"

text \<open>
  The condition one key of the filter puts on its field: none when the key is not
  set, equality for a string, and for any other value what the String path makes of it.
\<close>

definition condition ::
  "filter_cast \<Rightarrow> string \<Rightarrow> qvalue option \<Rightarrow> store_error + (string \<Rightarrow> bool)" where
  "condition fc path v =
     (case v of
        None \<Rightarrow> Inr (\<lambda>x. True)
      | Some (QStr t) \<Rightarrow> Inr (\<lambda>x. x = t)
      | Some w \<Rightarrow> fc path w)"

text \<open>
  \<^verbatim>\<open>Avocado.find(query)\<close>: the filter is cast key by key, which can fail before anything
  is sent; then the documents that meet both conditions, in the store's order.
\<close>

definition Avocado_find ::
  "filter_cast \<Rightarrow> store_error option \<Rightarrow> avocado list \<Rightarrow> query
     \<Rightarrow> store_error + avocado list" where
  "Avocado_find fc fault s q =
     (case condition fc ''date'' (date_q q) of
        Inl e \<Rightarrow> Inl e
      | Inr cd \<Rightarrow>
          (case condition fc ''region'' (region_q q) of
             Inl e \<Rightarrow> Inl e
           | Inr cr \<Rightarrow>
               (case fault of
                  Some e \<Rightarrow> Inl e
                | None \<Rightarrow> Inr (filter (\<lambda>a. cd (date a) \<and> cr (region a)) s))))"

text \<open>
  \<^verbatim>\<open>Avocado.findOne({ id: n })\<close>: the filter value goes through the Number path first;
  then the first document with that \<^verbatim>\<open>id\<close>, or \<^verbatim>\<open>null\<close> (\<open>None\<close>).
\<close>

definition Avocado_findOne ::
  "store_error option \<Rightarrow> store_error option \<Rightarrow> avocado list \<Rightarrow> jsnum
     \<Rightarrow> store_error + avocado option" where
  "Avocado_findOne castNaN fault s n =
     (case n of
        NaN \<Rightarrow>
          (case castNaN of
             Some e \<Rightarrow> Inl e
           | None \<Rightarrow> (case fault of Some e \<Rightarrow> Inl e | None \<Rightarrow> Inr None))
      | Num v \<Rightarrow>
          (case fault of
             Some e \<Rightarrow> Inl e
           | None \<Rightarrow> Inr (find (\<lambda>a. id_field a = v) s)))"

text \<open>
  \<^verbatim>\<open>newAvocado.save()\<close>: validation against the schema, then the insertion, which the
  unique index on \<^verbatim>\<open>id\<close> refuses when a document with that \<^verbatim>\<open>id\<close> is stored.
\<close>

definition Avocado_save ::
  "odm \<Rightarrow> store_error option \<Rightarrow> avocado list \<Rightarrow> json
     \<Rightarrow> store_error + (avocado list \<times> avocado)" where
  "Avocado_save odm fault s doc =
     (case odm doc of
        Inl e \<Rightarrow> Inl e
      | Inr a \<Rightarrow>
          (case fault of
             Some e \<Rightarrow> Inl e
           | None \<Rightarrow>
               (case find (\<lambda>r. id_field r = id_field a) s of
                  Some r \<Rightarrow> Inl duplicateKey
                | None \<Rightarrow> Inr (s @ [a], a))))"

text \<open>\<^verbatim>\<open>Avocado.deleteMany()\<close> with no filter: every document goes.\<close>

definition Avocado_deleteMany ::
  "store_error option \<Rightarrow> avocado list \<Rightarrow> store_error + avocado list" where
  "Avocado_deleteMany fault s = (case fault of Some e \<Rightarrow> Inl e | None \<Rightarrow> Inr [])"

text \<open>
  \<^verbatim>\<open>Avocado.insertMany(docs)\<close>, ordered: every document is validated first and nothing
  is sent when one fails; the documents are then inserted in order up to the first one
  the unique index refuses. The result is the collection after the call and the error
  thrown, if any.
\<close>

fun castAll :: "odm \<Rightarrow> json list \<Rightarrow> store_error + avocado list" where
  "castAll odm [] = Inr []"
| "castAll odm (d # ds) =
     (case odm d of
        Inl e \<Rightarrow> Inl e
      | Inr a \<Rightarrow> (case castAll odm ds of Inl e \<Rightarrow> Inl e | Inr as \<Rightarrow> Inr (a # as)))"

fun insertOrdered :: "avocado list \<Rightarrow> avocado list \<Rightarrow> avocado list \<times> store_error option" where
  "insertOrdered s [] = (s, None)"
| "insertOrdered s (a # as) =
     (case find (\<lambda>r. id_field r = id_field a) s of
        Some r \<Rightarrow> (s, Some duplicateKey)
      | None \<Rightarrow> insertOrdered (s @ [a]) as)"

definition Avocado_insertMany ::
  "odm \<Rightarrow> store_error option \<Rightarrow> avocado list \<Rightarrow> json list
     \<Rightarrow> avocado list \<times> store_error option" where
  "Avocado_insertMany odm fault s docs =
     (case castAll odm docs of
        Inl e \<Rightarrow> (s, Some e)
      | Inr as \<Rightarrow>
          (case fault of
             Some e \<Rightarrow> (s, Some e)
           | None \<Rightarrow> insertOrdered s as))"

subsection \<open>Responses\<close>

text \<open>
  \<^verbatim>\<open>res.status(n).json(v)\<close>: the status and the JSON value sent. An error object has an
  \<^verbatim>\<open>error\<close> text and, in some branches, a \<^verbatim>\<open>details\<close> text.
\<close>

datatype payload =
    Docs "avocado list"
  | Doc avocado
  | Err (error: string) (details: "string option")
  | Welcome

record response =
  status :: nat
  payload :: payload

definition json_response :: "nat \<Rightarrow> payload \<Rightarrow> response" where
  "json_response n v = \<lparr>status = n, payload = v\<rparr>"

subsection \<open>\<^verbatim>\<open>GET /avocadoSalesData\<close> (lines 68 to 85)\<close>

text \<open>
  Lines 71 to 73 build the filter: a query parameter is copied, as it is, exactly when
  it is truthy.
\<close>

definition buildQuery :: "qvalue option \<Rightarrow> qvalue option \<Rightarrow> query" where
  "buildQuery qdate qregion =
     (let q0 = \<lparr>date_q = None, region_q = None\<rparr>;
          q1 = (if truthyQ qdate then q0\<lparr>date_q := qdate\<rparr> else q0);
          q2 = (if truthyQ qregion then q1\<lparr>region_q := qregion\<rparr> else q1)
      in q2)"

definition get_avocadoSalesData ::
  "filter_cast \<Rightarrow> store_error option \<Rightarrow> avocado list \<Rightarrow> qvalue option \<Rightarrow> qvalue option
     \<Rightarrow> response" where
  "get_avocadoSalesData fc fault s qdate qregion =
     (case Avocado_find fc fault s (buildQuery qdate qregion) of
        Inr avocados \<Rightarrow>
          (if length avocados > 0 then json_response 200 (Docs avocados)
           else json_response 404
                  (Err ''No avocado sales data found for the given filters'' None))
      | Inl err \<Rightarrow>
          json_response 500 (Err ''Failed to retrieve data'' (Some (message err))))"

subsection \<open>\<^verbatim>\<open>GET /avocadoSalesData/:id\<close> (lines 88 to 101)\<close>

text \<open>
  The handler, on the path segment \<^verbatim>\<open>req.params.id\<close> that the router hands to it.
  \<open>toNumber\<close> is the engine's \<^verbatim>\<open>Number\<close> on strings (line 92).
\<close>

definition get_avocadoSalesData_id ::
  "(string \<Rightarrow> jsnum) \<Rightarrow> store_error option \<Rightarrow> store_error option \<Rightarrow> avocado list \<Rightarrow> string
     \<Rightarrow> response" where
  "get_avocadoSalesData_id toNumber castNaN fault s ident =
     (case Avocado_findOne castNaN fault s (toNumber ident) of
        Inr (Some avocado) \<Rightarrow> json_response 200 (Doc avocado)
      | Inr None \<Rightarrow>
          json_response 404 (Err (''No avocado sales data found for ID: '' @ ident) None)
      | Inl err \<Rightarrow>
          json_response 500 (Err ''Failed to retrieve data'' (Some (message err))))"

subsection \<open>\<^verbatim>\<open>POST /avocadoSalesData\<close> (lines 104 to 133)\<close>

text \<open>The names destructured from the body at line 105.\<close>

definition requiredFields :: "string list" where
  "requiredFields =
     [''id'', ''date'', ''region'', ''averagePrice'', ''totalVolume'',
      ''smallBags'', ''largeBags'', ''xLargeBags'']"

text \<open>The \<^verbatim>\<open>catch\<close> of lines 125 to 132.\<close>

definition createFailed :: "store_error \<Rightarrow> response" where
  "createFailed err =
     (if code err = Some 11000
      then json_response 409 (Err ''Duplicate ID: An entry with this ID already exists'' None)
      else json_response 400
             (Err ''Failed to create avocado sale entry'' (Some (message err))))"

text \<open>
  The object given to the constructor at lines 113 to 122: the eight values read from
  the body. All of them are present when line 108 lets the request through; a key
  whose value is \<^verbatim>\<open>undefined\<close> would be left out.
\<close>

definition newAvocado :: "json \<Rightarrow> json" where
  "newAvocado body =
     JObj (List.map_filter (\<lambda>k. map_option (Pair k) (getProp body k)) requiredFields)"

text \<open>The handler returns the collection after the request and the response.\<close>

definition post_avocadoSalesData ::
  "odm \<Rightarrow> store_error option \<Rightarrow> avocado list \<Rightarrow> json \<Rightarrow> avocado list \<times> response" where
  "post_avocadoSalesData odm fault s body =
     (if \<not> truthy (getProp body ''id'') \<or> \<not> truthy (getProp body ''date'')
         \<or> \<not> truthy (getProp body ''region'') \<or> \<not> truthy (getProp body ''averagePrice'')
         \<or> \<not> truthy (getProp body ''totalVolume'') \<or> \<not> truthy (getProp body ''smallBags'')
         \<or> \<not> truthy (getProp body ''largeBags'') \<or> \<not> truthy (getProp body ''xLargeBags'')
      then (s, json_response 400 (Err ''All fields are required'' None))
      else
        (case Avocado_save odm fault s (newAvocado body) of
           Inr (s', savedAvocado) \<Rightarrow> (s', json_response 201 (Doc savedAvocado))
         | Inl err \<Rightarrow> (s, createFailed err)))"

subsection \<open>The routes together\<close>

text \<open>What the handlers take from the JavaScript engine and from Mongoose.\<close>

record library =
  lib_toNumber :: "string \<Rightarrow> jsnum"
  lib_castNaN :: "store_error option"
  lib_castFilter :: filter_cast
  lib_castDocument :: odm

datatype request =
    GetRoot
  | GetAvocadoSalesData "qvalue option" "qvalue option"
  | GetAvocadoSalesDataId string
  | PostAvocadoSalesData json

fun serve ::
  "library \<Rightarrow> store_error option \<Rightarrow> request \<Rightarrow> avocado list \<Rightarrow> avocado list \<times> response" where
  "serve lib fault GetRoot s = (s, json_response 200 Welcome)"
| "serve lib fault (GetAvocadoSalesData qdate qregion) s =
     (s, get_avocadoSalesData (lib_castFilter lib) fault s qdate qregion)"
| "serve lib fault (GetAvocadoSalesDataId ident) s =
     (s, get_avocadoSalesData_id (lib_toNumber lib) (lib_castNaN lib) fault s ident)"
| "serve lib fault (PostAvocadoSalesData body) s =
     post_avocadoSalesData (lib_castDocument lib) fault s body"

text \<open>Requests served one after the other, each with the engine's behaviour at that time.\<close>

fun serveAll ::
  "library \<Rightarrow> (store_error option \<times> request) list \<Rightarrow> avocado list \<Rightarrow> avocado list" where
  "serveAll lib [] s = s"
| "serveAll lib ((fault, rq) # rest) s = serveAll lib rest (fst (serve lib fault rq s))"

subsection \<open>Seeding at start (lines 43 to 55) and \<^verbatim>\<open>app.listen\<close> (line 136)\<close>

datatype log_line =
    SeededSuccessfully
  | FailedToSeed store_error
  | ServerRunning

text \<open>
  \<^verbatim>\<open>seedDatabase\<close> is called at line 54 and not awaited: line 136 is reached at once,
  the server listens, and each \<^verbatim>\<open>await\<close> of the seed leaves the event loop free to
  serve requests. \<open>early\<close> are the requests whose store calls take effect before the
  deletion does, \<open>between\<close> those that take effect after the deletion and before the
  insertion. The result is the collection when the seed has settled, and the line it
  printed.
\<close>

definition seedDatabase ::
  "library \<Rightarrow> store_error option \<Rightarrow> store_error option \<Rightarrow> json list
     \<Rightarrow> (store_error option \<times> request) list \<Rightarrow> (store_error option \<times> request) list
     \<Rightarrow> avocado list \<Rightarrow> avocado list \<times> log_line" where
  "seedDatabase lib faultDelete faultInsert avocadoSalesData early between s =
     (case Avocado_deleteMany faultDelete (serveAll lib early s) of
        Inl err \<Rightarrow> (serveAll lib early s, FailedToSeed err)
      | Inr s1 \<Rightarrow>
          (case Avocado_insertMany (lib_castDocument lib) faultInsert (serveAll lib between s1)
                  avocadoSalesData of
             (s2, Some err) \<Rightarrow> (s2, FailedToSeed err)
           | (s2, None) \<Rightarrow> (s2, SeededSuccessfully)))"

text \<open>
  The process from line 43 on. \<open>required\<close> is what \<^verbatim>\<open>require\<close> gives at line 44: the
  array of the seed file, or \<open>None\<close> when it throws. Line 44 is outside the \<^verbatim>\<open>try\<close>
  of line 46, so a throw there ends the process before any route is registered and
  before \<^verbatim>\<open>app.listen\<close>. Otherwise the server listens and prints its line first, and
  the seed prints its own when it has settled. Without the flag the same requests are
  served and nothing is seeded.
\<close>

record server =
  store :: "avocado list"
  console :: "log_line list"
  listening :: bool

definition startServer ::
  "string option \<Rightarrow> json list option \<Rightarrow> library \<Rightarrow> store_error option \<Rightarrow> store_error option
     \<Rightarrow> (store_error option \<times> request) list \<Rightarrow> (store_error option \<times> request) list
     \<Rightarrow> avocado list \<Rightarrow> server" where
  "startServer RESET_DB required lib faultDelete faultInsert early between s =
     (if truthyStr RESET_DB
      then (case required of
              None \<Rightarrow> \<lparr>store = s, console = [], listening = False\<rparr>
            | Some avocadoSalesData \<Rightarrow>
                (case seedDatabase lib faultDelete faultInsert avocadoSalesData early between s of
                   (s', line) \<Rightarrow>
                     \<lparr>store = s', console = [ServerRunning, line], listening = True\<rparr>))
      else \<lparr>store = serveAll lib (early @ between) s, console = [ServerRunning],
             listening = True\<rparr>)"

subsection \<open>Instances for evaluation\<close>

text \<open>
  The properties below hold for every library. To run the handlers on concrete
  requests, one instance of each parameter follows.
\<close>

text \<open>
  \<^verbatim>\<open>Number\<close> on a string, after the StringNumericLiteral grammar of ECMAScript:
  surrounding white space is dropped, the empty string is \<^verbatim>\<open>0\<close>, a decimal literal
  may carry a sign, a fraction and an exponent, \<^verbatim>\<open>Infinity\<close> is a literal, and the
  unsigned prefixes \<^verbatim>\<open>0x\<close>, \<^verbatim>\<open>0o\<close>, \<^verbatim>\<open>0b\<close> select another radix; anything else is
  \<^verbatim>\<open>NaN\<close>. The value of the literal is rounded to the nearest double, ties to even.
  A string is a list of 8-bit characters here, read as code units, so of the white
  space of ECMAScript only the characters below 256 occur.
\<close>

definition isWhiteSpace :: "char \<Rightarrow> bool" where
  "isWhiteSpace c = (of_char c \<in> {9, 10, 11, 12, 13, 32, 160 :: nat})"

definition trim :: "string \<Rightarrow> string" where
  "trim s = rev (dropWhile isWhiteSpace (rev (dropWhile isWhiteSpace s)))"

definition isDigit :: "char \<Rightarrow> bool" where
  "isDigit c = (48 \<le> (of_char c :: nat) \<and> (of_char c :: nat) \<le> 57)"

definition isHexDigit :: "char \<Rightarrow> bool" where
  "isHexDigit c = (isDigit c
     \<or> (97 \<le> (of_char c :: nat) \<and> (of_char c :: nat) \<le> 102)
     \<or> (65 \<le> (of_char c :: nat) \<and> (of_char c :: nat) \<le> 70))"

definition digitValue :: "char \<Rightarrow> int" where
  "digitValue c =
     (if isDigit c then of_char c - 48
      else if 97 \<le> (of_char c :: nat) then of_char c - 87
      else of_char c - 55)"

definition radixValue :: "int \<Rightarrow> string \<Rightarrow> int" where
  "radixValue b ds = foldl (\<lambda>a c. b * a + digitValue c) 0 ds"

definition isRadixDigit :: "int \<Rightarrow> char \<Rightarrow> bool" where
  "isRadixDigit b c = (isHexDigit c \<and> digitValue c < b)"

text \<open>Rounding a rational to the nearest double.\<close>

definition pow2 :: "int \<Rightarrow> rat" where
  "pow2 e = (if 0 \<le> e then 2 ^ nat e else 1 / 2 ^ nat (- e))"

function log2floor :: "int \<Rightarrow> int" where
  "log2floor n = (if n < 2 then 0 else 1 + log2floor (n div 2))"
  by pat_completeness auto
termination
  by (relation "measure nat") auto

declare log2floor.simps [simp del]

text \<open>The \<open>e\<close> with \<open>2 ^ e \<le> q < 2 ^ (e + 1)\<close>, for a positive \<open>q\<close>.\<close>

definition binaryExponent :: "rat \<Rightarrow> int" where
  "binaryExponent q =
     (let e0 = log2floor (fst (quotient_of q)) - log2floor (snd (quotient_of q))
      in if pow2 e0 \<le> q then e0 else e0 - 1)"

definition roundHalfEven :: "rat \<Rightarrow> int" where
  "roundHalfEven m =
     (let f = \<lfloor>m\<rfloor>; d = m - of_int f
      in if d < 1 / 2 then f
         else if 1 / 2 < d then f + 1
         else if even f then f else f + 1)"

text \<open>
  A double has 53 significant bits and a binary exponent from -1022 to 1023; below
  that the spacing stays at \<open>2 ^ -1074\<close>, and a magnitude that rounds to \<open>2 ^ 1024\<close>
  is infinite.
\<close>

definition roundDouble :: "rat \<Rightarrow> number" where
  "roundDouble q =
     (if q = 0 then Fin 0
      else
        (let a = \<bar>q\<bar>;
             u = pow2 (max (binaryExponent a) (- 1022) - 52);
             r = of_int (roundHalfEven (a / u)) * u
         in if pow2 1024 \<le> r then (if q < 0 then NegInf else PosInf)
            else Fin (if q < 0 then - r else r)))"

text \<open>ExponentPart, or nothing: the power of ten, \<open>None\<close> when the rest is malformed.\<close>

definition exponentPart :: "string \<Rightarrow> int option" where
  "exponentPart s =
     (if s = [] then Some 0
      else if hd s = CHR ''e'' \<or> hd s = CHR ''E'' then
        (let r = tl s;
             neg = (r \<noteq> [] \<and> hd r = CHR ''-'');
             ds = (if r \<noteq> [] \<and> (hd r = CHR ''-'' \<or> hd r = CHR ''+'') then tl r else r)
         in if ds \<noteq> [] \<and> list_all isDigit ds
            then Some (if neg then - radixValue 10 ds else radixValue 10 ds)
            else None)
      else None)"

definition scale10 :: "rat \<Rightarrow> int \<Rightarrow> rat" where
  "scale10 m e = (if 0 \<le> e then m * 10 ^ nat e else m / 10 ^ nat (- e))"

text \<open>StrUnsignedDecimalLiteral.\<close>

definition unsignedDecimal :: "string \<Rightarrow> jsnum" where
  "unsignedDecimal s =
     (if s = ''Infinity'' then Num PosInf
      else
        (let ip = takeWhile isDigit s;
             r1 = dropWhile isDigit s;
             dot = (r1 \<noteq> [] \<and> hd r1 = CHR ''.'');
             fp = (if dot then takeWhile isDigit (tl r1) else []);
             r2 = (if dot then dropWhile isDigit (tl r1) else r1)
         in if ip = [] \<and> fp = [] then NaN
            else (case exponentPart r2 of
                    None \<Rightarrow> NaN
                  | Some e \<Rightarrow>
                      Num (roundDouble (scale10
                        (of_int (radixValue 10 ip)
                           + of_int (radixValue 10 fp) / 10 ^ length fp) e)))))"

fun negate :: "jsnum \<Rightarrow> jsnum" where
  "negate (Num (Fin q)) = Num (Fin (- q))"
| "negate (Num PosInf) = Num NegInf"
| "negate (Num NegInf) = Num PosInf"
| "negate NaN = NaN"

text \<open>NonDecimalIntegerLiteral: the digits after a two-character radix prefix.\<close>

definition radixLiteral :: "int \<Rightarrow> string \<Rightarrow> jsnum" where
  "radixLiteral b ds =
     (if ds \<noteq> [] \<and> list_all (isRadixDigit b) ds
      then Num (roundDouble (of_int (radixValue b ds))) else NaN)"

definition jsNumber :: "string \<Rightarrow> jsnum" where
  "jsNumber s =
     (let t = trim s in
      if t = [] then Num (Fin 0)
      else if take 2 t = ''0x'' \<or> take 2 t = ''0X'' then radixLiteral 16 (drop 2 t)
      else if take 2 t = ''0o'' \<or> take 2 t = ''0O'' then radixLiteral 8 (drop 2 t)
      else if take 2 t = ''0b'' \<or> take 2 t = ''0B'' then radixLiteral 2 (drop 2 t)
      else if hd t = CHR ''+'' then unsignedDecimal (tl t)
      else if hd t = CHR ''-'' then negate (unsignedDecimal (tl t))
      else unsignedDecimal t)"

text \<open>
  Mongoose's Number path on the filter value \<^verbatim>\<open>NaN\<close>: it throws this cast error, and
  the query is rejected before it is sent.
\<close>

definition castError :: store_error where
  "castError =
     StoreError None
       (''Cast to Number failed for value '' @ [CHR 0x22] @ ''NaN'' @ [CHR 0x22]
        @ '' (type number) at path '' @ [CHR 0x22] @ ''id'' @ [CHR 0x22]
        @ '' for model '' @ [CHR 0x22] @ ''Avocado'' @ [CHR 0x22])"

text \<open>
  A String path on a filter value that is not a string, for the two shapes used below:
  the object \<^verbatim>\<open>{ $ne: x }\<close> asks for a field other than \<open>x\<close>, an array of strings for
  a field that is one of them; every other value is taken as a cast error.
\<close>

definition stringCastError :: "string \<Rightarrow> store_error" where
  "stringCastError path = StoreError None (''Cast to string failed at path '' @ path)"

fun theStrings :: "qvalue list \<Rightarrow> string list option" where
  "theStrings [] = Some []"
| "theStrings (QStr x # vs) = map_option (Cons x) (theStrings vs)"
| "theStrings (v # vs) = None"

fun operatorCast :: filter_cast where
  "operatorCast path (QObj [(k, QStr x)]) =
     (if k = ''$ne'' then Inr (\<lambda>f. f \<noteq> x) else Inl (stringCastError path))"
| "operatorCast path (QArr vs) =
     (case theStrings vs of
        Some xs \<Rightarrow> Inr (\<lambda>f. f \<in> set xs)
      | None \<Rightarrow> Inl (stringCastError path))"
| "operatorCast path v = Inl (stringCastError path)"

text \<open>
  A model constructor that accepts an object whose eight values already have the
  types of the schema and rejects every other one with a validation error.
\<close>

definition validationError :: store_error where
  "validationError = StoreError None ''Avocado validation failed''"

definition typedOdm :: odm where
  "typedOdm doc =
     (case (getProp doc ''id'', getProp doc ''date'', getProp doc ''region'',
            getProp doc ''averagePrice'', getProp doc ''totalVolume'',
            getProp doc ''smallBags'', getProp doc ''largeBags'', getProp doc ''xLargeBags'') of
        (Some (JNum i), Some (JStr d), Some (JStr r), Some (JNum p), Some (JNum v),
         Some (JNum sb), Some (JNum lb), Some (JNum xb)) \<Rightarrow>
          (if d = [] \<or> r = [] then Inl validationError
           else Inr \<lparr>id_field = i, date = d, region = r, averagePrice = p, totalVolume = v,
                     smallBags = sb, largeBags = lb, xLargeBags = xb\<rparr>)
      | _ \<Rightarrow> Inl validationError)"

definition sampleLibrary :: library where
  "sampleLibrary =
     \<lparr>lib_toNumber = jsNumber, lib_castNaN = Some castError,
      lib_castFilter = operatorCast, lib_castDocument = typedOdm\<rparr>"

text \<open>The record of the specification's example with the body that creates it, and two more.\<close>

definition exampleRecord :: avocado where
  "exampleRecord =
     \<lparr>id_field = Fin 1, date = ''2020-01-01'', region = ''USA'', averagePrice = Fin (3 / 2),
      totalVolume = Fin 100, smallBags = Fin 50, largeBags = Fin 30, xLargeBags = Fin 20\<rparr>"

definition exampleBody :: json where
  "exampleBody =
     JObj [(''id'', JNum (Fin 1)), (''date'', JStr ''2020-01-01''), (''region'', JStr ''USA''),
           (''averagePrice'', JNum (Fin (3 / 2))), (''totalVolume'', JNum (Fin 100)),
           (''smallBags'', JNum (Fin 50)), (''largeBags'', JNum (Fin 30)),
           (''xLargeBags'', JNum (Fin 20))]"

definition otherRecord :: avocado where
  "otherRecord =
     \<lparr>id_field = Fin 2, date = ''2020-01-08'', region = ''West'', averagePrice = Fin 2,
      totalVolume = Fin 80, smallBags = Fin 40, largeBags = Fin 30, xLargeBags = Fin 10\<rparr>"


definition thirdRecord :: avocado where
  "thirdRecord =
     \<lparr>id_field = Fin 3, date = ''2020-01-15'', region = ''West'', averagePrice = Fin 1,
      totalVolume = Fin 60, smallBags = Fin 30, largeBags = Fin 20, xLargeBags = Fin 10\<rparr>"


text \<open>Two bodies that line 108 turns away: a zero volume, and a zero \<^verbatim>\<open>id\<close>.\<close>

definition zeroVolumeBody :: json where
  "zeroVolumeBody =
     JObj [(''id'', JNum (Fin 1)), (''date'', JStr ''2020-01-01''), (''region'', JStr ''USA''),
           (''averagePrice'', JNum (Fin (3 / 2))), (''totalVolume'', JNum (Fin 0)),
           (''smallBags'', JNum (Fin 50)), (''largeBags'', JNum (Fin 30)),
           (''xLargeBags'', JNum (Fin 20))]"

definition zeroIdBody :: json where
  "zeroIdBody =
     JObj [(''id'', JNum (Fin 0)), (''date'', JStr ''2020-01-01''), (''region'', JStr ''USA''),
           (''averagePrice'', JNum (Fin (3 / 2))), (''totalVolume'', JNum (Fin 100)),
           (''smallBags'', JNum (Fin 50)), (''largeBags'', JNum (Fin 30)),
           (''xLargeBags'', JNum (Fin 20))]"

definition connectionLost :: store_error where
  "connectionLost = StoreError None ''connection lost''"

section \<open>Properties\<close>

subsection \<open>Lists\<close>

lemma find_append_first:
  "find P xs = Some x \<Longrightarrow> find P (xs @ ys) = Some x"
  by (induction xs) (auto split: if_splits)

lemma find_append_none:
  "find P xs = None \<Longrightarrow> find P (xs @ ys) = find P ys"
  by (induction xs) (auto split: if_splits)


subsection \<open>The two branches of the create handler\<close>

lemma post_not_validated:
  assumes "\<not> list_all (\<lambda>k. truthy (getProp body k)) requiredFields"
  shows "post_avocadoSalesData odm fault s body
           = (s, json_response 400 (Err ''All fields are required'' None))"
  using assms by (auto simp: post_avocadoSalesData_def requiredFields_def)

lemma post_validated:
  assumes "list_all (\<lambda>k. truthy (getProp body k)) requiredFields"
  shows "post_avocadoSalesData odm fault s body
           = (case Avocado_save odm fault s (newAvocado body) of
                Inr (s', savedAvocado) \<Rightarrow> (s', json_response 201 (Doc savedAvocado))
              | Inl err \<Rightarrow> (s, createFailed err))"
  using assms by (simp add: post_avocadoSalesData_def requiredFields_def)

lemma save_success:
  assumes "Avocado_save odm fault s doc = Inr (s', a)"
  shows "s' = s @ [a] \<and> find (\<lambda>r. id_field r = id_field a) s = None
           \<and> odm doc = Inr a \<and> fault = None"
  using assms by (auto simp: Avocado_save_def split: sum.splits option.splits)

lemma save_fresh:
  assumes "odm doc = Inr a" and "find (\<lambda>r. id_field r = id_field a) s = None"
  shows "Avocado_save odm None s doc = Inr (s @ [a], a)"
  using assms by (simp add: Avocado_save_def)

lemma status_createFailed: "status (createFailed err) \<noteq> 201"
  by (simp add: createFailed_def json_response_def)

lemma falsy_values:
  "v = None \<or> v = Some JNull \<or> v = Some (JNum (Fin 0)) \<or> v = Some (JStr '''')
     \<Longrightarrow> \<not> truthy v"
  by auto

text \<open>A 201 comes from the success branch only: the document was appended, and no stored
  document had its \<^verbatim>\<open>id\<close>.\<close>

lemma post_created:
  assumes "post_avocadoSalesData odm fault s body = (s', rsp)" and "status rsp = 201"
  shows "\<exists>a. rsp = json_response 201 (Doc a) \<and> s' = s @ [a]
             \<and> find (\<lambda>r. id_field r = id_field a) s = None"
proof (cases "list_all (\<lambda>k. truthy (getProp body k)) requiredFields")
  case False
  from post_not_validated[OF False, of odm fault s] assms show ?thesis
    by (auto simp: json_response_def)
next
  case True
  show ?thesis
  proof (cases "Avocado_save odm fault s (newAvocado body)")
    case (Inl err)
    with post_validated[OF True, of odm fault s] assms status_createFailed[of err]
    show ?thesis by auto
  next
    case (Inr p)
    obtain s1 a where p: "p = (s1, a)" by (cases p)
    from Inr p post_validated[OF True, of odm fault s] assms
    have "s' = s1" "rsp = json_response 201 (Doc a)" by auto
    with save_success[of odm fault s "newAvocado body" s1 a] Inr p
    show ?thesis by auto
  qed
qed

subsection \<open>The sample bodies\<close>

lemma typedOdm_exampleBody: "typedOdm (newAvocado exampleBody) = Inr exampleRecord"
  by (simp add: typedOdm_def newAvocado_def requiredFields_def exampleBody_def
      exampleRecord_def List.map_filter_simps)

lemma exampleBody_validated:
  "list_all (\<lambda>k. truthy (getProp exampleBody k)) requiredFields"
  by (simp add: requiredFields_def exampleBody_def)


lemma sample_ids:
  "id_field exampleRecord = Fin 1" "id_field otherRecord = Fin 2" "id_field thirdRecord = Fin 3"
  by (simp_all add: exampleRecord_def otherRecord_def thirdRecord_def)

lemma post_exampleBody_fresh:
  assumes "find (\<lambda>r. id_field r = Fin 1) s = None"
  shows "post_avocadoSalesData typedOdm None s exampleBody
           = (s @ [exampleRecord], json_response 201 (Doc exampleRecord))"
proof -
  have "Avocado_save typedOdm None s (newAvocado exampleBody)
          = Inr (s @ [exampleRecord], exampleRecord)"
    using assms by (intro save_fresh typedOdm_exampleBody) (simp add: sample_ids)
  with post_validated[OF exampleBody_validated, of typedOdm None s] show ?thesis by simp
qed

subsection \<open>No route removes a document\<close>

lemma post_store_grows:
  "\<exists>ext. fst (post_avocadoSalesData odm fault s body) = s @ ext"
proof (cases "list_all (\<lambda>k. truthy (getProp body k)) requiredFields")
  case False
  from post_not_validated[OF False, of odm fault s] show ?thesis by simp
next
  case True
  show ?thesis
  proof (cases "Avocado_save odm fault s (newAvocado body)")
    case (Inl err)
    with post_validated[OF True, of odm fault s] show ?thesis by simp
  next
    case (Inr p)
    obtain s1 a where p: "p = (s1, a)" by (cases p)
    with Inr post_validated[OF True, of odm fault s]
      save_success[of odm fault s "newAvocado body" s1 a]
    show ?thesis by simp
  qed
qed

lemma serve_store_grows: "\<exists>ext. fst (serve lib fault rq s) = s @ ext"
  by (cases rq) (simp_all add: post_store_grows)

lemma serveAll_store_grows: "\<exists>ext. serveAll lib rqs s = s @ ext"
proof (induction rqs arbitrary: s)
  case Nil
  show ?case by simp
next
  case (Cons fr rest)
  obtain fault rq where fr: "fr = (fault, rq)" by (cases fr)
  obtain e1 where e1: "fst (serve lib fault rq s) = s @ e1"
    using serve_store_grows by blast
  obtain e2 where "serveAll lib rest (s @ e1) = (s @ e1) @ e2"
    using Cons.IH by blast
  with fr e1 show ?case by simp
qed

lemma getById_found:
  assumes "toNum ident = Num v" and "find (\<lambda>a. id_field a = v) s = Some R"
  shows "get_avocadoSalesData_id toNum castNaN None s ident = json_response 200 (Doc R)"
  using assms by (simp add: get_avocadoSalesData_id_def Avocado_findOne_def)

subsection \<open>The filter of strings\<close>

lemma find_strings:
  "Avocado_find fc fault s (buildQuery (map_option QStr d) (map_option QStr r))
     = (case fault of
          Some e \<Rightarrow> Inl e
        | None \<Rightarrow>
            Inr (filter (\<lambda>a. (truthyStr d \<longrightarrow> Some (date a) = d)
                            \<and> (truthyStr r \<longrightarrow> Some (region a) = r)) s))"
  by (cases d; cases r; cases fault)
     (auto simp: Avocado_find_def buildQuery_def condition_def Let_def intro: filter_cong)

subsection \<open>Validation of many documents, ordered insertion\<close>




subsection \<open>A seed file that does not load\<close>

text \<open>
  With the flag set and \<^verbatim>\<open>require\<close> throwing at line 44, nothing after it runs: the
  collection is untouched, nothing is printed and the server does not listen.
\<close>

lemma seed_file_not_loaded:
  "truthyStr RESET_DB \<Longrightarrow>
     startServer RESET_DB None lib faultDelete faultInsert early between s
       = \<lparr>store = s, console = [], listening = False\<rparr>"
  by (simp add: startServer_def)

section \<open>The claims\<close>

text \<open>
  C1. Create, then get. When \<^verbatim>\<open>POST /avocadoSalesData\<close> answers 201, its payload is a
  record \<open>R\<close> that is now stored, and from then on, whatever requests are served in
  between, \<^verbatim>\<open>GET /avocadoSalesData/:id\<close> with a path segment that \<^verbatim>\<open>Number\<close> reads as
  the \<^verbatim>\<open>id\<close> of \<open>R\<close> answers 200 with exactly \<open>R\<close> (the store answering the lookup).
  This holds for every library, that is, whatever \<^verbatim>\<open>Number\<close> and Mongoose do.
\<close>

theorem create_then_get:
  assumes "post_avocadoSalesData (lib_castDocument lib) fault s body = (s', rsp)"
    and "status rsp = 201"
  shows "\<exists>R. rsp = json_response 201 (Doc R) \<and> R \<in> set s'
           \<and> (\<forall>later ident. lib_toNumber lib ident = Num (id_field R) \<longrightarrow>
                 get_avocadoSalesData_id (lib_toNumber lib) (lib_castNaN lib) None
                     (serveAll lib later s') ident
                   = json_response 200 (Doc R))"
proof -
  from post_created[OF assms] obtain a where
    a: "rsp = json_response 201 (Doc a)" "s' = s @ [a]"
       "find (\<lambda>r. id_field r = id_field a) s = None"
    by blast
  have here: "find (\<lambda>r. id_field r = id_field a) s' = Some a"
    using a by (simp add: find_append_none)
  have "get_avocadoSalesData_id (lib_toNumber lib) (lib_castNaN lib) None
          (serveAll lib later s') ident = json_response 200 (Doc a)"
    if "lib_toNumber lib ident = Num (id_field a)" for later ident
  proof -
    obtain ext where "serveAll lib later s' = s' @ ext"
      using serveAll_store_grows by blast
    with here have "find (\<lambda>r. id_field r = id_field a) (serveAll lib later s') = Some a"
      by (simp add: find_append_first)
    with that show ?thesis by (rule getById_found)
  qed
  with a show ?thesis by auto
qed

theorem create_then_get_witness:
  "post_avocadoSalesData (lib_castDocument sampleLibrary) None [otherRecord] exampleBody
     = ([otherRecord, exampleRecord], json_response 201 (Doc exampleRecord))
   \<and> lib_toNumber sampleLibrary ''1'' = Num (id_field exampleRecord)
   \<and> get_avocadoSalesData_id (lib_toNumber sampleLibrary) (lib_castNaN sampleLibrary) None
       (serveAll sampleLibrary
          [(None, PostAvocadoSalesData exampleBody), (Some connectionLost, GetRoot),
           (None, GetAvocadoSalesData None None)]
          [otherRecord, exampleRecord]) ''1''
       = json_response 200 (Doc exampleRecord)"
proof -
  have odm: "lib_castDocument sampleLibrary = typedOdm"
    by (simp add: sampleLibrary_def)
  have "find (\<lambda>r. id_field r = Fin 1) [otherRecord] = None"
    by (simp add: sample_ids)
  from post_exampleBody_fresh[OF this] odm
  have post: "post_avocadoSalesData (lib_castDocument sampleLibrary) None [otherRecord] exampleBody
     = ([otherRecord, exampleRecord], json_response 201 (Doc exampleRecord))"
    by simp
  have st: "status (json_response 201 (Doc exampleRecord)) = 201"
    by (simp add: json_response_def)
  have "jsNumber ''1'' = Num (Fin 1)" by code_simp
  then have n: "lib_toNumber sampleLibrary ''1'' = Num (id_field exampleRecord)"
    by (simp add: sampleLibrary_def sample_ids)
  from create_then_get[OF post st] obtain R where
    R: "json_response 201 (Doc exampleRecord) = json_response 201 (Doc R)"
    and get: "\<And>later ident. lib_toNumber sampleLibrary ident = Num (id_field R) \<Longrightarrow>
                 get_avocadoSalesData_id (lib_toNumber sampleLibrary) (lib_castNaN sampleLibrary)
                   None (serveAll sampleLibrary later [otherRecord, exampleRecord]) ident
                   = json_response 200 (Doc R)"
    by blast
  from R have "R = exampleRecord" by (simp add: json_response_def)
  with get n have "get_avocadoSalesData_id (lib_toNumber sampleLibrary)
       (lib_castNaN sampleLibrary) None
       (serveAll sampleLibrary
          [(None, PostAvocadoSalesData exampleBody), (Some connectionLost, GetRoot),
           (None, GetAvocadoSalesData None None)]
          [otherRecord, exampleRecord]) ''1''
       = json_response 200 (Doc exampleRecord)"
    by blast
  with post n show ?thesis by blast
qed

text \<open>
  C2. A \<^verbatim>\<open>POST /avocadoSalesData\<close> body in which one of the eight required fields is
  omitted, \<^verbatim>\<open>null\<close>, \<^verbatim>\<open>0\<close> or the empty string is answered 400, and the collection is
  left as it was, whatever the schema and the engine would have done.
\<close>

theorem post_missing_field_rejected:
  assumes "k \<in> set requiredFields"
    and "getProp body k = None \<or> getProp body k = Some JNull
         \<or> getProp body k = Some (JNum (Fin 0)) \<or> getProp body k = Some (JStr '''')"
  shows "post_avocadoSalesData odm fault s body
           = (s, json_response 400 (Err ''All fields are required'' None))"
proof -
  from assms(2) have "\<not> truthy (getProp body k)" by (rule falsy_values)
  with assms(1) have "\<not> list_all (\<lambda>k. truthy (getProp body k)) requiredFields"
    by (auto simp: list_all_iff)
  then show ?thesis by (rule post_not_validated)
qed

theorem post_missing_field_rejected_witness:
  "''totalVolume'' \<in> set requiredFields
   \<and> getProp zeroVolumeBody ''totalVolume'' = Some (JNum (Fin 0))
   \<and> post_avocadoSalesData typedOdm None [otherRecord] zeroVolumeBody
       = ([otherRecord], json_response 400 (Err ''All fields are required'' None))"
proof -
  have k: "''totalVolume'' \<in> set requiredFields" by (simp add: requiredFields_def)
  have v: "getProp zeroVolumeBody ''totalVolume'' = Some (JNum (Fin 0))"
    by (simp add: zeroVolumeBody_def)
  from post_missing_field_rejected[OF k, of zeroVolumeBody typedOdm None "[otherRecord]"] v k
  show ?thesis by simp
qed

text \<open>
  C3. A \<^verbatim>\<open>POST /avocadoSalesData\<close> request that passes line 108 is answered from the
  outcome of \<^verbatim>\<open>save\<close>: 409 with the duplicate-id text when the insertion is refused by
  the unique index (a stored record has the \<^verbatim>\<open>id\<close> of the new document; the error code is
  11000), 400 with the creation-failure text and the error's message for every other
  error, and 201 with the stored record, appended to the collection, on success.
\<close>

theorem post_validated_outcomes:
  assumes "list_all (\<lambda>k. truthy (getProp body k)) requiredFields"
  shows "(\<forall>a. odm (newAvocado body) = Inr a \<and> fault = None
               \<and> (\<exists>r \<in> set s. id_field r = id_field a) \<longrightarrow>
            Avocado_save odm fault s (newAvocado body) = Inl duplicateKey
            \<and> post_avocadoSalesData odm fault s body
                = (s, json_response 409
                        (Err ''Duplicate ID: An entry with this ID already exists'' None)))
       \<and> (\<forall>err. Avocado_save odm fault s (newAvocado body) = Inl err \<and> code err = Some 11000 \<longrightarrow>
            post_avocadoSalesData odm fault s body
              = (s, json_response 409
                      (Err ''Duplicate ID: An entry with this ID already exists'' None)))
       \<and> (\<forall>err. Avocado_save odm fault s (newAvocado body) = Inl err \<and> code err \<noteq> Some 11000 \<longrightarrow>
            post_avocadoSalesData odm fault s body
              = (s, json_response 400
                      (Err ''Failed to create avocado sale entry'' (Some (message err)))))
       \<and> (\<forall>s' saved. Avocado_save odm fault s (newAvocado body) = Inr (s', saved) \<longrightarrow>
            s' = s @ [saved]
            \<and> post_avocadoSalesData odm fault s body = (s', json_response 201 (Doc saved)))"
proof -
  note post = post_validated[OF assms, of odm fault s]
  have dup: "Avocado_save odm fault s (newAvocado body) = Inl duplicateKey"
    if "odm (newAvocado body) = Inr a" "fault = None" "\<exists>r \<in> set s. id_field r = id_field a" for a
  proof -
    from that(3) have "find (\<lambda>r. id_field r = id_field a) s \<noteq> None"
      by (auto simp: find_None_iff)
    with that(1,2) show ?thesis
      by (auto simp: Avocado_save_def)
  qed
  have c1: "post_avocadoSalesData odm fault s body
                = (s, json_response 409
                        (Err ''Duplicate ID: An entry with this ID already exists'' None))"
    if "Avocado_save odm fault s (newAvocado body) = Inl err" "code err = Some 11000" for err
    using that post by (simp add: createFailed_def)
  have c2: "post_avocadoSalesData odm fault s body
              = (s, json_response 400
                      (Err ''Failed to create avocado sale entry'' (Some (message err))))"
    if "Avocado_save odm fault s (newAvocado body) = Inl err" "code err \<noteq> Some 11000" for err
    using that post by (simp add: createFailed_def)
  have c3: "s' = s @ [saved]
            \<and> post_avocadoSalesData odm fault s body = (s', json_response 201 (Doc saved))"
    if "Avocado_save odm fault s (newAvocado body) = Inr (s', saved)" for s' saved
    using that post save_success[OF that] by simp
  have c0: "post_avocadoSalesData odm fault s body
                = (s, json_response 409
                        (Err ''Duplicate ID: An entry with this ID already exists'' None))"
    if "odm (newAvocado body) = Inr a" "fault = None" "\<exists>r \<in> set s. id_field r = id_field a" for a
    using c1[OF dup[OF that]] by (simp add: duplicateKey_def)
  from dup c0 c1 c2 c3 show ?thesis by blast
qed

theorem post_validated_outcomes_witness:
  "list_all (\<lambda>k. truthy (getProp exampleBody k)) requiredFields
   \<and> post_avocadoSalesData typedOdm None [exampleRecord] exampleBody
       = ([exampleRecord],
          json_response 409 (Err ''Duplicate ID: An entry with this ID already exists'' None))
   \<and> post_avocadoSalesData typedOdm (Some connectionLost) [] exampleBody
       = ([], json_response 400
                (Err ''Failed to create avocado sale entry'' (Some ''connection lost'')))
   \<and> post_avocadoSalesData typedOdm None [otherRecord] exampleBody
       = ([otherRecord, exampleRecord], json_response 201 (Doc exampleRecord))"
proof -
  note ok = exampleBody_validated
  note cast = typedOdm_exampleBody
  have dup: "\<exists>r \<in> set [exampleRecord]. id_field r = id_field exampleRecord"
    by simp
  have lost: "Avocado_save typedOdm (Some connectionLost) [] (newAvocado exampleBody)
                = Inl connectionLost \<and> code connectionLost \<noteq> Some 11000"
    using cast by (simp add: Avocado_save_def connectionLost_def)
  have saved: "Avocado_save typedOdm None [otherRecord] (newAvocado exampleBody)
                 = Inr ([otherRecord, exampleRecord], exampleRecord)"
    using cast by (simp add: Avocado_save_def exampleRecord_def otherRecord_def)
  from post_validated_outcomes[OF ok, of typedOdm None "[exampleRecord]"] cast dup
  have one: "post_avocadoSalesData typedOdm None [exampleRecord] exampleBody
       = ([exampleRecord],
          json_response 409 (Err ''Duplicate ID: An entry with this ID already exists'' None))"
    by blast
  from post_validated_outcomes[OF ok, of typedOdm "Some connectionLost" "[]"] lost
  have "post_avocadoSalesData typedOdm (Some connectionLost) [] exampleBody
       = ([], json_response 400
                (Err ''Failed to create avocado sale entry'' (Some (message connectionLost))))"
    by blast
  then have two: "post_avocadoSalesData typedOdm (Some connectionLost) [] exampleBody
       = ([], json_response 400
                (Err ''Failed to create avocado sale entry'' (Some ''connection lost'')))"
    by (simp add: connectionLost_def)
  from post_validated_outcomes[OF ok, of typedOdm None "[otherRecord]"] saved
  have three: "post_avocadoSalesData typedOdm None [otherRecord] exampleBody
       = ([otherRecord, exampleRecord], json_response 201 (Doc exampleRecord))"
    by blast
  from ok one two three show ?thesis by blast
qed

text \<open>
  C4. \<^verbatim>\<open>GET /avocadoSalesData\<close>, the store answering \<^verbatim>\<open>find\<close> on the constructed
  filter: when the records it returns are not none, the response is 200 with them; when
  there is none, the empty collection without filters included, it is 404 with an
  error text. For parameters that are strings or absent the records returned are those
  that have every non-empty parameter as the value of its field. In no case at all is
  the response 200 with an empty array.
\<close>

theorem list_found_or_404:
  "(Avocado_find fc fault s (buildQuery qdate qregion) = Inr found \<longrightarrow>
      get_avocadoSalesData fc fault s qdate qregion
        = (if found \<noteq> [] then json_response 200 (Docs found)
           else json_response 404
                  (Err ''No avocado sales data found for the given filters'' None)))
   \<and> get_avocadoSalesData fc None s (map_option QStr d) (map_option QStr r)
       = (if filter (\<lambda>a. (truthyStr d \<longrightarrow> Some (date a) = d)
                         \<and> (truthyStr r \<longrightarrow> Some (region a) = r)) s \<noteq> []
          then json_response 200
                 (Docs (filter (\<lambda>a. (truthyStr d \<longrightarrow> Some (date a) = d)
                                   \<and> (truthyStr r \<longrightarrow> Some (region a) = r)) s))
          else json_response 404
                 (Err ''No avocado sales data found for the given filters'' None))
   \<and> get_avocadoSalesData fc None [] None None
       = json_response 404 (Err ''No avocado sales data found for the given filters'' None)
   \<and> get_avocadoSalesData fc fault s qdate qregion \<noteq> json_response 200 (Docs [])"
proof -
  have a: "get_avocadoSalesData fc fault s qdate qregion
        = (if found \<noteq> [] then json_response 200 (Docs found)
           else json_response 404
                  (Err ''No avocado sales data found for the given filters'' None))"
    if "Avocado_find fc fault s (buildQuery qdate qregion) = Inr found"
    using that by (simp add: get_avocadoSalesData_def)
  have "Avocado_find fc None s (buildQuery (map_option QStr d) (map_option QStr r))
          = Inr (filter (\<lambda>a. (truthyStr d \<longrightarrow> Some (date a) = d)
                            \<and> (truthyStr r \<longrightarrow> Some (region a) = r)) s)"
    by (simp add: find_strings)
  then have b: "get_avocadoSalesData fc None s (map_option QStr d) (map_option QStr r)
       = (if filter (\<lambda>a. (truthyStr d \<longrightarrow> Some (date a) = d)
                         \<and> (truthyStr r \<longrightarrow> Some (region a) = r)) s \<noteq> []
          then json_response 200
                 (Docs (filter (\<lambda>a. (truthyStr d \<longrightarrow> Some (date a) = d)
                                   \<and> (truthyStr r \<longrightarrow> Some (region a) = r)) s))
          else json_response 404
                 (Err ''No avocado sales data found for the given filters'' None))"
    by (simp add: get_avocadoSalesData_def)
  have c: "get_avocadoSalesData fc None [] None None
       = json_response 404 (Err ''No avocado sales data found for the given filters'' None)"
    by (simp add: get_avocadoSalesData_def Avocado_find_def buildQuery_def condition_def)
  have d: "get_avocadoSalesData fc fault s qdate qregion \<noteq> json_response 200 (Docs [])"
    by (cases "Avocado_find fc fault s (buildQuery qdate qregion)")
       (simp_all add: get_avocadoSalesData_def json_response_def)
  from a b c d show ?thesis by blast
qed

theorem list_found_or_404_witness:
  "Avocado_find operatorCast None [exampleRecord, otherRecord]
       (buildQuery None (Some (QObj [(''$ne'', QStr ''USA'')]))) = Inr [otherRecord]
   \<and> get_avocadoSalesData operatorCast None [exampleRecord, otherRecord] None
         (Some (QObj [(''$ne'', QStr ''USA'')]))
       = json_response 200 (Docs [otherRecord])
   \<and> Avocado_find operatorCast None [exampleRecord, otherRecord]
       (buildQuery None (Some (QStr ''East''))) = Inr []
   \<and> get_avocadoSalesData operatorCast None [exampleRecord, otherRecord] None
         (Some (QStr ''East''))
       = json_response 404 (Err ''No avocado sales data found for the given filters'' None)"
proof -
  have f1: "Avocado_find operatorCast None [exampleRecord, otherRecord]
       (buildQuery None (Some (QObj [(''$ne'', QStr ''USA'')]))) = Inr [otherRecord]"
    by (simp add: Avocado_find_def buildQuery_def condition_def exampleRecord_def
        otherRecord_def)
  have f2: "Avocado_find operatorCast None [exampleRecord, otherRecord]
       (buildQuery None (Some (QStr ''East''))) = Inr []"
    by (simp add: Avocado_find_def buildQuery_def condition_def exampleRecord_def
        otherRecord_def)
  from list_found_or_404[of operatorCast None "[exampleRecord, otherRecord]" None
         "Some (QObj [(''$ne'', QStr ''USA'')])" "[otherRecord]"] f1
  have g1: "get_avocadoSalesData operatorCast None [exampleRecord, otherRecord] None
         (Some (QObj [(''$ne'', QStr ''USA'')]))
       = json_response 200 (Docs [otherRecord])"
    by simp
  from list_found_or_404[of operatorCast None "[exampleRecord, otherRecord]" None
         "Some (QStr ''East'')" "[]"] f2
  have g2: "get_avocadoSalesData operatorCast None [exampleRecord, otherRecord] None
         (Some (QStr ''East''))
       = json_response 404 (Err ''No avocado sales data found for the given filters'' None)"
    by simp
  from f1 f2 g1 g2 show ?thesis by blast
qed




text \<open>
  C6, as the code has it. When \<^verbatim>\<open>Number\<close> reads the path segment that reaches the handler
  of \<^verbatim>\<open>GET /avocadoSalesData/:id\<close> as \<^verbatim>\<open>NaN\<close>, the answer is decided by the Number path
  of the schema: when it throws a cast error for \<^verbatim>\<open>NaN\<close>, as Mongoose does, \<^verbatim>\<open>findOne\<close>
  rejects whatever the engine does, and the \<^verbatim>\<open>catch\<close> of line 98 answers 500 with the
  retrieval-failure text and the error's message: neither 404 nor 400. Only a library
  that let \<^verbatim>\<open>NaN\<close> through would give the 404. The 404 with the text naming the id
  answers a segment read as a number that no record has.
\<close>

theorem non_numeric_id_is_500:
  "(toNumber ident = NaN \<and> castNaN = Some e \<longrightarrow>
      get_avocadoSalesData_id toNumber castNaN fault s ident
        = json_response 500 (Err ''Failed to retrieve data'' (Some (message e))))
   \<and> (toNumber ident = NaN \<and> castNaN = None \<and> fault = None \<longrightarrow>
      get_avocadoSalesData_id toNumber castNaN fault s ident
        = json_response 404 (Err (''No avocado sales data found for ID: '' @ ident) None))
   \<and> (toNumber ident = Num v \<and> find (\<lambda>a. id_field a = v) s = None \<longrightarrow>
      get_avocadoSalesData_id toNumber castNaN None s ident
        = json_response 404 (Err (''No avocado sales data found for ID: '' @ ident) None))"
  by (simp add: get_avocadoSalesData_id_def Avocado_findOne_def)

theorem non_numeric_id_is_500_witness:
  "jsNumber ''abc'' = NaN
   \<and> get_avocadoSalesData_id jsNumber (Some castError) None [exampleRecord] ''abc''
       = json_response 500 (Err ''Failed to retrieve data'' (Some (message castError)))
   \<and> get_avocadoSalesData_id jsNumber (Some castError) (Some connectionLost) [exampleRecord]
         ''abc''
       = json_response 500 (Err ''Failed to retrieve data'' (Some (message castError)))
   \<and> jsNumber ''999'' = Num (Fin 999)
   \<and> get_avocadoSalesData_id jsNumber (Some castError) None [exampleRecord] ''999''
       = json_response 404 (Err ''No avocado sales data found for ID: 999'' None)"
proof -
  have n: "jsNumber ''abc'' = NaN" by code_simp
  have m: "jsNumber ''999'' = Num (Fin 999)" by code_simp
  have f: "find (\<lambda>a. id_field a = Fin 999) [exampleRecord] = None"
    by (simp add: exampleRecord_def)
  from non_numeric_id_is_500[of jsNumber "''abc''" "Some castError" castError None
         "[exampleRecord]"]
       non_numeric_id_is_500[of jsNumber "''abc''" "Some castError" castError
         "Some connectionLost" "[exampleRecord]"]
       non_numeric_id_is_500[of jsNumber "''999''" "Some castError" castError None
         "[exampleRecord]" "Fin 999"] n m f
  show ?thesis by simp
qed

text \<open>
  C6 as it is written fails at the segment \<^verbatim>\<open>abc\<close>: \<^verbatim>\<open>Number\<close> reads it as \<^verbatim>\<open>NaN\<close>,
  Mongoose's Number path throws its cast error, and the response is 500, not 404.
\<close>

theorem non_numeric_id_counterexample:
  "jsNumber ''abc'' = NaN
   \<and> status (get_avocadoSalesData_id jsNumber (Some castError) None [exampleRecord] ''abc'')
       = 500
   \<and> status (get_avocadoSalesData_id jsNumber (Some castError) None [exampleRecord] ''abc'')
       \<noteq> 404"
proof -
  have n: "jsNumber ''abc'' = NaN" by code_simp
  then show ?thesis
    by (simp add: get_avocadoSalesData_id_def Avocado_findOne_def json_response_def)
qed

text \<open>
  C7. In both GET routes a store call that rejects, with any error, is answered 500
  with the error text \<^verbatim>\<open>Failed to retrieve data\<close> and the error's message as details.
  In particular a failure of the engine always ends so, with the engine's own message
  when the filter values are strings or absent and the id is read as a number: the
  handlers are total, and no error leaves them.
\<close>

theorem get_store_failure_is_500:
  "(Avocado_find fc fault s (buildQuery qdate qregion) = Inl err \<longrightarrow>
      get_avocadoSalesData fc fault s qdate qregion
        = json_response 500 (Err ''Failed to retrieve data'' (Some (message err))))
   \<and> (Avocado_findOne castNaN fault s (toNumber ident) = Inl err \<longrightarrow>
      get_avocadoSalesData_id toNumber castNaN fault s ident
        = json_response 500 (Err ''Failed to retrieve data'' (Some (message err))))
   \<and> get_avocadoSalesData fc (Some e) s (map_option QStr d) (map_option QStr r)
        = json_response 500 (Err ''Failed to retrieve data'' (Some (message e)))
   \<and> (\<exists>e'. Avocado_find fc (Some e) s (buildQuery qdate qregion) = Inl e'
          \<and> get_avocadoSalesData fc (Some e) s qdate qregion
              = json_response 500 (Err ''Failed to retrieve data'' (Some (message e'))))
   \<and> (toNumber ident = Num v \<longrightarrow>
        get_avocadoSalesData_id toNumber castNaN (Some e) s ident
          = json_response 500 (Err ''Failed to retrieve data'' (Some (message e))))
   \<and> (\<exists>e'. Avocado_findOne castNaN (Some e) s (toNumber ident) = Inl e'
          \<and> get_avocadoSalesData_id toNumber castNaN (Some e) s ident
              = json_response 500 (Err ''Failed to retrieve data'' (Some (message e'))))"
proof -
  have a: "get_avocadoSalesData fc fault s qdate qregion
        = json_response 500 (Err ''Failed to retrieve data'' (Some (message err)))"
    if "Avocado_find fc fault s (buildQuery qdate qregion) = Inl err"
    using that by (simp add: get_avocadoSalesData_def)
  have b: "get_avocadoSalesData_id toNumber castNaN fault s ident
        = json_response 500 (Err ''Failed to retrieve data'' (Some (message err)))"
    if "Avocado_findOne castNaN fault s (toNumber ident) = Inl err"
    using that by (simp add: get_avocadoSalesData_id_def)
  have c: "get_avocadoSalesData fc (Some e) s (map_option QStr d) (map_option QStr r)
        = json_response 500 (Err ''Failed to retrieve data'' (Some (message e)))"
    by (simp add: get_avocadoSalesData_def find_strings)
  have d: "\<exists>e'. Avocado_find fc (Some e) s (buildQuery qdate qregion) = Inl e'
          \<and> get_avocadoSalesData fc (Some e) s qdate qregion
              = json_response 500 (Err ''Failed to retrieve data'' (Some (message e')))"
    by (auto simp: get_avocadoSalesData_def Avocado_find_def split: sum.splits)
  have f: "get_avocadoSalesData_id toNumber castNaN (Some e) s ident
          = json_response 500 (Err ''Failed to retrieve data'' (Some (message e)))"
    if "toNumber ident = Num v"
    using that by (simp add: get_avocadoSalesData_id_def Avocado_findOne_def)
  have g: "\<exists>e'. Avocado_findOne castNaN (Some e) s (toNumber ident) = Inl e'
          \<and> get_avocadoSalesData_id toNumber castNaN (Some e) s ident
              = json_response 500 (Err ''Failed to retrieve data'' (Some (message e')))"
    by (cases "toNumber ident"; cases castNaN)
       (simp_all add: get_avocadoSalesData_id_def Avocado_findOne_def)
  from a b c d f g show ?thesis by blast
qed

theorem get_store_failure_is_500_witness:
  "Avocado_find operatorCast (Some connectionLost) [exampleRecord] (buildQuery None None)
     = Inl connectionLost
   \<and> get_avocadoSalesData operatorCast (Some connectionLost) [exampleRecord] None None
       = json_response 500 (Err ''Failed to retrieve data'' (Some ''connection lost''))
   \<and> Avocado_find operatorCast None [exampleRecord]
         (buildQuery None (Some (QObj [(''a'', QStr ''b'')])))
       = Inl (stringCastError ''region'')
   \<and> get_avocadoSalesData operatorCast None [exampleRecord] None
         (Some (QObj [(''a'', QStr ''b'')]))
       = json_response 500
           (Err ''Failed to retrieve data'' (Some (message (stringCastError ''region''))))
   \<and> Avocado_findOne (Some castError) (Some connectionLost) [exampleRecord] (jsNumber ''1'')
       = Inl connectionLost
   \<and> get_avocadoSalesData_id jsNumber (Some castError) (Some connectionLost) [exampleRecord]
         ''1''
       = json_response 500 (Err ''Failed to retrieve data'' (Some ''connection lost''))"
proof -
  have n: "jsNumber ''1'' = Num (Fin 1)" by code_simp
  have a: "Avocado_find operatorCast (Some connectionLost) [exampleRecord]
             (buildQuery None None) = Inl connectionLost"
    by (simp add: Avocado_find_def buildQuery_def condition_def)
  have a': "Avocado_find operatorCast None [exampleRecord]
         (buildQuery None (Some (QObj [(''a'', QStr ''b'')])))
       = Inl (stringCastError ''region'')"
    by (simp add: Avocado_find_def buildQuery_def condition_def)
  have b: "Avocado_findOne (Some castError) (Some connectionLost) [exampleRecord]
             (jsNumber ''1'') = Inl connectionLost"
    by (simp add: Avocado_findOne_def n)
  have c: "message connectionLost = ''connection lost''"
    by (simp add: connectionLost_def)
  from get_store_failure_is_500[of operatorCast "Some connectionLost" "[exampleRecord]"
         None None connectionLost] a c
  have g1: "get_avocadoSalesData operatorCast (Some connectionLost) [exampleRecord] None None
       = json_response 500 (Err ''Failed to retrieve data'' (Some ''connection lost''))"
    by simp
  from get_store_failure_is_500[of operatorCast None "[exampleRecord]"
         None "Some (QObj [(''a'', QStr ''b'')])" "stringCastError ''region''"] a'
  have g2: "get_avocadoSalesData operatorCast None [exampleRecord] None
         (Some (QObj [(''a'', QStr ''b'')]))
       = json_response 500
           (Err ''Failed to retrieve data'' (Some (message (stringCastError ''region''))))"
    by simp
  from get_store_failure_is_500[of _ "Some connectionLost" "[exampleRecord]" _ _
         connectionLost "Some castError" jsNumber "''1''"] b c
  have g3: "get_avocadoSalesData_id jsNumber (Some castError) (Some connectionLost)
         [exampleRecord] ''1''
       = json_response 500 (Err ''Failed to retrieve data'' (Some ''connection lost''))"
    by simp
  from a a' b g1 g2 g3 show ?thesis by blast
qed




text \<open>
  C9. The \<^verbatim>\<open>id\<close> is checked for truthiness like every other field: a body whose
  \<^verbatim>\<open>id\<close> is omitted, \<^verbatim>\<open>null\<close> or \<^verbatim>\<open>0\<close> is answered 400 with the collection
  unchanged, and the answer is the same for every behaviour of the schema and of the
  engine: the store has no part in it.
\<close>

theorem post_falsy_id_rejected:
  assumes "getProp body ''id'' = None \<or> getProp body ''id'' = Some JNull
           \<or> getProp body ''id'' = Some (JNum (Fin 0))"
  shows "post_avocadoSalesData odm fault s body
           = (s, json_response 400 (Err ''All fields are required'' None))"
proof -
  from assms have "\<not> truthy (getProp body ''id'')" by auto
  then have "\<not> list_all (\<lambda>k. truthy (getProp body k)) requiredFields"
    by (simp add: requiredFields_def)
  then show ?thesis by (rule post_not_validated)
qed

theorem post_falsy_id_rejected_witness:
  "getProp zeroIdBody ''id'' = Some (JNum (Fin 0))
   \<and> post_avocadoSalesData typedOdm None [] zeroIdBody
       = ([], json_response 400 (Err ''All fields are required'' None))
   \<and> post_avocadoSalesData typedOdm (Some duplicateKey) [] zeroIdBody
       = ([], json_response 400 (Err ''All fields are required'' None))
   \<and> get_avocadoSalesData_id jsNumber (Some castError) None
         [exampleRecord\<lparr>id_field := Fin 0\<rparr>] ''0''
       = json_response 200 (Doc (exampleRecord\<lparr>id_field := Fin 0\<rparr>))"
proof -
  have v: "getProp zeroIdBody ''id'' = Some (JNum (Fin 0))"
    by (simp add: zeroIdBody_def)
  then have h: "getProp zeroIdBody ''id'' = None \<or> getProp zeroIdBody ''id'' = Some JNull
           \<or> getProp zeroIdBody ''id'' = Some (JNum (Fin 0))" by simp
  have n: "jsNumber ''0'' = Num (Fin 0)" by code_simp
  have g: "get_avocadoSalesData_id jsNumber (Some castError) None
         [exampleRecord\<lparr>id_field := Fin 0\<rparr>] ''0''
       = json_response 200 (Doc (exampleRecord\<lparr>id_field := Fin 0\<rparr>))"
    by (rule getById_found[of jsNumber "''0''" "Fin 0", OF n]) simp
  from post_falsy_id_rejected[OF h, of typedOdm None "[]"]
       post_falsy_id_rejected[OF h, of typedOdm "Some duplicateKey" "[]"] v g
  show ?thesis by simp
qed

text \<open>
  C10. In \<^verbatim>\<open>GET /avocadoSalesData\<close> a query parameter given as the empty string is
  treated as an absent one: the filter built is the same and so is the response, for
  the date and for the region alike and whatever the other parameter is, and no filter
  ever asks for a field that equals the empty string.
\<close>

theorem empty_parameter_is_absent:
  "buildQuery (Some (QStr '''')) qregion = buildQuery None qregion
   \<and> buildQuery qdate (Some (QStr '''')) = buildQuery qdate None
   \<and> get_avocadoSalesData fc fault s (Some (QStr '''')) qregion
       = get_avocadoSalesData fc fault s None qregion
   \<and> get_avocadoSalesData fc fault s qdate (Some (QStr ''''))
       = get_avocadoSalesData fc fault s qdate None
   \<and> date_q (buildQuery qdate qregion) \<noteq> Some (QStr '''')
   \<and> region_q (buildQuery qdate qregion) \<noteq> Some (QStr '''')"
  by (cases qdate rule: truthyQ.cases; cases qregion rule: truthyQ.cases)
     (simp_all add: get_avocadoSalesData_def buildQuery_def Let_def)

end
